theory Spec2Isabelle
  imports Complex_Main "HOL-Library.Multiset" "HOL-Library.Product_Lexorder"
begin

section \<open>Values shared by the transformers\<close>

text \<open>
  Python strings are sequences of Unicode code points; a string is modelled as the list of
  its code points.  Prices are Python floats in the source; the development idealises them
  as rationals, so that sums, quotients and comparisons are exact.  A naive \<open>datetime\<close> is
  modelled as its number of microseconds on the time line, a \<open>timedelta\<close> as a difference
  of two such numbers.
\<close>

type_synonym pystr = "nat list"








text \<open>
  The exceptions of the transformers.  \<open>InvalidPrice\<close>, \<open>InvalidMentions\<close> and
  \<open>ZeroHistoricalAverage\<close> are the three \<open>ValueError\<close>s of the source;
  \<open>StorageFailure\<close> is whatever exception the database layer raises, carrying its text.
\<close>

datatype error =
    InvalidPrice rat
  | InvalidMentions int
  | ZeroHistoricalAverage int
  | InsufficientDataError int
  | StorageFailure string
  | SKUMatchError string
  | NormalizationError pystr


section \<open>The storage collaborator\<close>






section \<open>Price analysis (\<open>price_analyzer.py\<close>)\<close>








section \<open>Risk calculation (\<open>risk_calculator.py\<close>)\<close>


text \<open>\<open>check_threshold\<close>; the threshold is the configured \<open>settings.risk_threshold\<close>.\<close>

definition check_threshold :: "rat \<Rightarrow> rat \<Rightarrow> bool" where
  "check_threshold threshold risk_index = (risk_index < threshold)"

section \<open>SKU matching (\<open>sku_matcher.py\<close>)\<close>









section \<open>Sentiment analysis (\<open>sentiment_analyzer.py\<close>)\<close>









section \<open>Notions of the specification\<close>





section \<open>Sample data\<close>









section \<open>Evaluating string literals\<close>



section \<open>The baseline window\<close>













section \<open>Risk index\<close>




section \<open>Price change\<close>






section \<open>Threshold\<close>

text \<open>
  Claim C7.  \<open>check_threshold\<close> reports high risk exactly when the risk index is below
  the threshold; a risk index equal to the threshold is not high risk.
\<close>

theorem check_threshold_strict:
  "(check_threshold threshold risk_index \<longleftrightarrow> risk_index < threshold)
   \<and> \<not> check_threshold threshold threshold"
  by (simp add: check_threshold_def)


section \<open>Keyword frequency\<close>



lemma urls_insert_other:
  "(k', d') \<noteq> (k, d) \<Longrightarrow> {url'. (k', d', url') \<in> insert (k, d, url) S} = {url'. (k', d', url') \<in> S}"
  by auto











section \<open>Similar SKUs\<close>











section \<open>Storage failures\<close>















end
